theory Spec2Isabelle
  imports Main
begin

section \<open>Records of the document model (parser.py)\<close>

text \<open>
  The dataclasses \<^verbatim>\<open>Highlight\<close> and \<^verbatim>\<open>Book\<close> of both parser modules. Python's
  \<^verbatim>\<open>int | None\<close> and \<^verbatim>\<open>str | None\<close> are options; Python integers are unbounded.
\<close>

record Highlight =
  h_id :: string
  h_color :: string
  h_text :: string
  h_page :: "int option"
  h_location :: "int option"
  h_note :: "string option"

record Book =
  asin :: string
  title :: string
  author :: string
  cover_url :: string
  highlights :: "Highlight list"

section \<open>The export store (scraper.py)\<close>

text \<open>
  The stored form follows the TypedDict declarations of src/src/scraper.py:
  \<^verbatim>\<open>HighlightDict\<close>, \<^verbatim>\<open>BookDict\<close> and \<^verbatim>\<open>ExportData\<close>. A \<^verbatim>\<open>NotRequired\<close> key is an
  option: \<open>None\<close> says that the dictionary has no such key. The \<^verbatim>\<open>run\<close> dictionary
  (\<^verbatim>\<open>dict[str, str | None]\<close>) is an association list in insertion order.
\<close>

record HighlightDict =
  hd_id :: string
  hd_color :: string
  hd_text :: string
  hd_page :: "int option"
  hd_location :: "int option"
  hd_note :: "string option"

record BookDict =
  bd_asin :: string
  bd_title :: string
  bd_author :: string
  bd_cover_url :: string
  bd_highlights :: "HighlightDict list"

record ExportData =
  run :: "(string \<times> string option) list"
  books :: "BookDict list"

text \<open>
  Python's \<^verbatim>\<open>d[k] = v\<close> on a dictionary: an existing key keeps its place, a new key goes
  to the end. \<^verbatim>\<open>d.get(k)\<close> is \<open>map_of d k\<close>.
\<close>

fun dict_set :: "'k \<Rightarrow> 'v \<Rightarrow> ('k \<times> 'v) list \<Rightarrow> ('k \<times> 'v) list" where
  "dict_set k v [] = [(k, v)]"
| "dict_set k v ((k', v') # d) = (if k' = k then (k, v) # d else (k', v') # dict_set k v d)"

text \<open>
  The exceptions the store's library calls raise. What the process finds at a path is an
  input of the model: no file (\<^verbatim>\<open>Path(p).exists()\<close> is false), a file on which
  \<^verbatim>\<open>open\<close> or \<^verbatim>\<open>json.load\<close> raises, or a file from which \<^verbatim>\<open>json.load\<close> returns data.
  \<^verbatim>\<open>UnicodeDecodeError\<close> is what reading a file that is not UTF-8 raises; it is a
  \<^verbatim>\<open>ValueError\<close> and neither an \<^verbatim>\<open>OSError\<close> nor a \<^verbatim>\<open>JSONDecodeError\<close>.
\<close>

datatype py_exception = OSError | JSONDecodeError | UnicodeDecodeError | ValueError

datatype stored_file = Missing | ReadRaises py_exception | Holds ExportData

record filesystem =
  content :: "string \<Rightarrow> stored_file"
  write_raises :: "string \<Rightarrow> py_exception option"

datatype message =
  CouldNotLoad string py_exception
| UpdatedBook string nat
| AddedBook string nat

text \<open>\<^verbatim>\<open>_empty_export_data\<close>; \<open>now\<close> is \<^verbatim>\<open>datetime.now().isoformat()\<close>.\<close>

definition empty_export_data :: "string \<Rightarrow> ExportData" where
  "empty_export_data now = \<lparr>run = [(''timestamp'', Some (now @ ''Z''))], books = []\<rparr>"

text \<open>
  \<^verbatim>\<open>load_existing_data\<close>: the handler is
  \<^verbatim>\<open>except (json.JSONDecodeError, IOError)\<close> (\<^verbatim>\<open>IOError\<close> is \<^verbatim>\<open>OSError\<close>); any other
  exception propagates. The result carries what was printed.
\<close>

definition load_existing_data ::
  "string \<Rightarrow> filesystem \<Rightarrow> string \<Rightarrow> py_exception + (ExportData \<times> message list)" where
  "load_existing_data now fs output_path =
     (case content fs output_path of
        Missing \<Rightarrow> Inr (empty_export_data now, [])
      | ReadRaises e \<Rightarrow>
          if e = JSONDecodeError \<or> e = OSError
          then Inr (empty_export_data now, [CouldNotLoad output_path e])
          else Inl e
      | Holds data \<Rightarrow> Inr (data, []))"

text \<open>The body of the loop of \<^verbatim>\<open>book_to_dict\<close>; \<^verbatim>\<open>if highlight.note:\<close> is false on \<^verbatim>\<open>None\<close> and on the empty string.\<close>

definition highlight_data :: "Highlight \<Rightarrow> HighlightDict" where
  "highlight_data highlight =
     \<lparr>hd_id = h_id highlight, hd_color = h_color highlight, hd_text = h_text highlight,
      hd_page = (case h_page highlight of None \<Rightarrow> None | Some p \<Rightarrow> Some p),
      hd_location = (case h_location highlight of None \<Rightarrow> None | Some l \<Rightarrow> Some l),
      hd_note = (case h_note highlight of
                   None \<Rightarrow> None
                 | Some n \<Rightarrow> if n \<noteq> [] then Some n else None)\<rparr>"

definition book_to_dict :: "Book \<Rightarrow> BookDict" where
  "book_to_dict book =
     \<lparr>bd_asin = asin book, bd_title = title book, bd_author = author book,
      bd_cover_url = cover_url book,
      bd_highlights = map highlight_data (highlights book)\<rparr>"

text \<open>
  The update loop of \<^verbatim>\<open>save_book_progressively\<close>: the first entry with the book's asin
  is overwritten, then \<^verbatim>\<open>break\<close>.
\<close>

fun replace_first :: "string \<Rightarrow> BookDict \<Rightarrow> BookDict list \<Rightarrow> BookDict list" where
  "replace_first a book_dict [] = []"
| "replace_first a book_dict (existing_book # rest) =
     (if bd_asin existing_book = a then book_dict # rest
      else existing_book # replace_first a book_dict rest)"

text \<open>The in-memory part of \<^verbatim>\<open>save_book_progressively\<close>, between the load and the write.\<close>

definition upsert :: "string \<Rightarrow> Book \<Rightarrow> ExportData \<Rightarrow> ExportData \<times> message" where
  "upsert now book data =
     (let existing_asins = set (map bd_asin (books data));
          book_dict = book_to_dict book;
          (books', msg) =
            (if asin book \<in> existing_asins
             then (replace_first (asin book) book_dict (books data),
                   UpdatedBook (title book) (length (highlights book)))
             else (books data @ [book_dict],
                   AddedBook (title book) (length (highlights book))))
      in (\<lparr>run = dict_set ''timestamp'' (Some (now @ ''Z'')) (run data), books = books'\<rparr>, msg))"

text \<open>
  \<^verbatim>\<open>save_book_progressively\<close>: load, upsert, write. A write that succeeds leaves at the
  path the data that was dumped (\<^verbatim>\<open>json.load\<close> of \<^verbatim>\<open>json.dump\<close>).
\<close>

definition save_book_progressively ::
  "string \<Rightarrow> filesystem \<Rightarrow> Book \<Rightarrow> string \<Rightarrow> py_exception + (filesystem \<times> message list)" where
  "save_book_progressively now fs book output_path =
     (case load_existing_data now fs output_path of
        Inl e \<Rightarrow> Inl e
      | Inr (data, printed) \<Rightarrow>
          (case upsert now book data of
             (data', msg) \<Rightarrow>
               (case write_raises fs output_path of
                  Some e \<Rightarrow> Inl e
                | None \<Rightarrow>
                    Inr (fs\<lparr>content := (content fs)(output_path := Holds data')\<rparr>,
                         printed @ [msg]))))"

section \<open>The stabilization loop (get_book_list, scrape_book_highlights)\<close>

text \<open>
  \<^verbatim>\<open>while stable_count < 3\<close>: each round scrolls, waits and reads \<^verbatim>\<open>current_count\<close>.
  The counts the page shows are a list, one per round; \<open>polls\<close> counts the rounds made.
  \<open>None\<close>: the loop is still running when the list is used up.
\<close>

fun stabilize :: "nat \<Rightarrow> nat \<Rightarrow> nat \<Rightarrow> nat list \<Rightarrow> (nat \<times> nat) option" where
  "stabilize last_count stable_count polls [] =
     (if stable_count < 3 then None else Some (polls, last_count))"
| "stabilize last_count stable_count polls (current_count # later) =
     (if stable_count < 3
      then (if current_count = last_count
            then stabilize last_count (stable_count + 1) (polls + 1) later
            else stabilize current_count 0 (polls + 1) later)
      else Some (polls, last_count))"

section \<open>The parsed document (BeautifulSoup)\<close>

text \<open>
  Both parser modules start with \<^verbatim>\<open>BeautifulSoup(html, "html.parser")\<close> and only query the
  tree it returns, so the tree is the input of the model. A node is a tag (name,
  attribute dictionary, contents), a string that \<^verbatim>\<open>get_text\<close> collects, or a comment or
  declaration, which no query matches and \<^verbatim>\<open>get_text\<close> skips. A \<open>soup\<close> is the contents of
  the \<^verbatim>\<open>BeautifulSoup\<close> object; the empty string parses to the soup with no contents.
  Strings are lists of 8-bit characters, read as the code points 0 to 255.
\<close>

datatype node =
  Tag string "(string \<times> string) list" "node list"
| NavigableString string
| Comment string

type_synonym soup = "node list"

fun contents :: "node \<Rightarrow> node list" where
  "contents (Tag name attrs children) = children"
| "contents (NavigableString s) = []"
| "contents (Comment s) = []"

text \<open>\<^verbatim>\<open>tag.get(key)\<close> and \<^verbatim>\<open>tag.get(key, default)\<close>.\<close>

fun attr :: "node \<Rightarrow> string \<Rightarrow> string option" where
  "attr (Tag name attrs children) key = map_of attrs key"
| "attr (NavigableString s) key = None"
| "attr (Comment s) key = None"

definition get_default :: "node \<Rightarrow> string \<Rightarrow> string \<Rightarrow> string" where
  "get_default tag key dflt = (case attr tag key of None \<Rightarrow> dflt | Some v \<Rightarrow> v)"

text \<open>
  White space as \<^verbatim>\<open>str.strip()\<close>, \<^verbatim>\<open>str.isspace()\<close>, \<^verbatim>\<open>int()\<close> and the pattern \<^verbatim>\<open>\S+\<close> see
  it among the code points 0 to 255: the ASCII white space (tab to carriage return, the
  four separators U+001C to U+001F, the space), the next-line control U+0085 and the
  no-break space U+00A0. Then \<^verbatim>\<open>str.strip\<close>, \<^verbatim>\<open>str.startswith\<close>, \<^verbatim>\<open>str.endswith\<close> and
  \<^verbatim>\<open>str.removeprefix\<close>.
\<close>

definition is_space :: "char \<Rightarrow> bool" where
  "is_space c = (c \<in> set [CHR 0x09, CHR 0x0A, CHR 0x0B, CHR 0x0C, CHR 0x0D,
                           CHR 0x1C, CHR 0x1D, CHR 0x1E, CHR 0x1F, CHR 0x20,
                           CHR 0x85, CHR 0xA0])"

definition strip :: "string \<Rightarrow> string" where
  "strip s = rev (dropWhile is_space (rev (dropWhile is_space s)))"

definition startswith :: "string \<Rightarrow> string \<Rightarrow> bool" where
  "startswith s prefix = (take (length prefix) s = prefix)"

definition endswith :: "string \<Rightarrow> string \<Rightarrow> bool" where
  "endswith s suffix = (length suffix \<le> length s \<and> drop (length s - length suffix) s = suffix)"

definition removeprefix :: "string \<Rightarrow> string \<Rightarrow> string" where
  "removeprefix s prefix = (if startswith s prefix then drop (length prefix) s else s)"

text \<open>\<^verbatim>\<open>s.replace(old, new)\<close> for a non-empty \<open>old\<close>: every occurrence, left to right.\<close>

function str_replace :: "string \<Rightarrow> string \<Rightarrow> string \<Rightarrow> string" where
  "str_replace old new [] = []"
| "str_replace old new (c # cs) =
     (if old \<noteq> [] \<and> startswith (c # cs) old
      then new @ str_replace old new (drop (length old) (c # cs))
      else c # str_replace old new cs)"
  by pat_completeness auto
termination
  by (relation "measure (\<lambda>(old, new, s). length s)") (auto simp: Suc_diff_le)

text \<open>
  The class list of a tag (\<^verbatim>\<open>tag.get("class", [])\<close>): the attribute's value split at
  white space.
\<close>

fun split_words :: "string \<Rightarrow> string \<Rightarrow> string list" where
  "split_words cur [] = (if cur = [] then [] else [rev cur])"
| "split_words cur (c # cs) =
     (if is_space c
      then (if cur = [] then split_words [] cs else rev cur # split_words [] cs)
      else split_words (c # cur) cs)"

definition words :: "string \<Rightarrow> string list" where
  "words s = split_words [] s"

definition get_class :: "node \<Rightarrow> string list" where
  "get_class tag = (case attr tag ''class'' of None \<Rightarrow> [] | Some v \<Rightarrow> words v)"

text \<open>
  The filters of \<^verbatim>\<open>find\<close>, \<^verbatim>\<open>find_all\<close> and of the CSS selectors: a tag name, a class
  (\<^verbatim>\<open>class_="c"\<close>, \<^verbatim>\<open>.c\<close>), an id (\<^verbatim>\<open>id="v"\<close>, \<^verbatim>\<open>#v\<close>), and \<^verbatim>\<open>id=True\<close>, which any
  value of the attribute satisfies.
\<close>

fun named :: "string \<Rightarrow> node \<Rightarrow> bool" where
  "named n (Tag name attrs children) = (name = n)"
| "named n (NavigableString s) = False"
| "named n (Comment s) = False"

definition has_class :: "string \<Rightarrow> node \<Rightarrow> bool" where
  "has_class c tag = (c \<in> set (get_class tag))"

definition has_id :: "string \<Rightarrow> node \<Rightarrow> bool" where
  "has_id v tag = (attr tag ''id'' = Some v)"

definition has_attr :: "string \<Rightarrow> node \<Rightarrow> bool" where
  "has_attr key tag = (attr tag key \<noteq> None)"

text \<open>The tags below a list of nodes, in document order (\<^verbatim>\<open>descendants\<close>).\<close>

fun tags_in :: "node list \<Rightarrow> node list" where
  "tags_in [] = []"
| "tags_in (Tag name attrs children # rest) =
     Tag name attrs children # tags_in children @ tags_in rest"
| "tags_in (NavigableString s # rest) = tags_in rest"
| "tags_in (Comment s # rest) = tags_in rest"

definition find_all :: "node list \<Rightarrow> (node \<Rightarrow> bool) \<Rightarrow> node list" where
  "find_all scope matches = filter matches (tags_in scope)"

definition find_first :: "node list \<Rightarrow> (node \<Rightarrow> bool) \<Rightarrow> node option" where
  "find_first scope matches =
     (case find_all scope matches of [] \<Rightarrow> None | tag # others \<Rightarrow> Some tag)"

text \<open>
  \<^verbatim>\<open>get_text()\<close> joins the strings below a tag; \<^verbatim>\<open>get_text(strip=True)\<close> strips each and
  joins those that are not empty.
\<close>

fun strings_in :: "node list \<Rightarrow> string list" where
  "strings_in [] = []"
| "strings_in (Tag name attrs children # rest) = strings_in children @ strings_in rest"
| "strings_in (NavigableString s # rest) = s # strings_in rest"
| "strings_in (Comment s # rest) = strings_in rest"

definition get_text :: "node \<Rightarrow> string" where
  "get_text tag = concat (strings_in (contents tag))"

definition get_text_strip :: "node \<Rightarrow> string" where
  "get_text_strip tag = concat (filter (\<lambda>s. s \<noteq> []) (map strip (strings_in (contents tag))))"

section \<open>Numbers in header text\<close>

text \<open>
  \<^verbatim>\<open>int(s)\<close> on a string: white space around, a sign, decimal digits with single
  underscores between them; otherwise \<^verbatim>\<open>ValueError\<close> (\<open>None\<close>), also when there are more
  than 4300 digits (the interpreter's limit on integer string conversion).
\<close>

definition is_digit :: "char \<Rightarrow> bool" where
  "is_digit c = (c \<in> set ''0123456789'')"

fun digits_underscores :: "string \<Rightarrow> bool" where
  "digits_underscores [] = False"
| "digits_underscores [c] = is_digit c"
| "digits_underscores (c # d # r) =
     (is_digit c \<and> (if d = CHR ''_'' then digits_underscores r else digits_underscores (d # r)))"

definition digits_value :: "string \<Rightarrow> int" where
  "digits_value ds = foldl (\<lambda>acc c. 10 * acc + (of_char c - 48)) 0 ds"

definition int_max_str_digits :: nat where
  "int_max_str_digits = 4300"

definition py_int :: "string \<Rightarrow> int option" where
  "py_int s =
     (let t = strip s;
          negative = (t \<noteq> [] \<and> hd t = CHR ''-'');
          body = (if t \<noteq> [] \<and> (hd t = CHR ''-'' \<or> hd t = CHR ''+'') then tl t else t);
          ds = filter is_digit body
      in if digits_underscores body \<and> length ds \<le> int_max_str_digits
         then Some (if negative then - digits_value ds else digits_value ds)
         else None)"

text \<open>
  \<^verbatim>\<open>re.search(label + r"(\d+)", text)\<close>: group 1 of the leftmost place where the label is
  followed by a digit, or \<open>None\<close>.
\<close>

fun re_search_number :: "string \<Rightarrow> string \<Rightarrow> string option" where
  "re_search_number label [] = None"
| "re_search_number label (c # cs) =
     (if startswith (c # cs) label \<and> takeWhile is_digit (drop (length label) (c # cs)) \<noteq> []
      then Some (takeWhile is_digit (drop (length label) (c # cs)))
      else re_search_number label cs)"

text \<open>\<^verbatim>\<open>int(m.group(1)) if m else None\<close>; the call of \<^verbatim>\<open>int\<close> is not guarded.\<close>

definition group_int :: "string option \<Rightarrow> py_exception + int option" where
  "group_int m =
     (case m of
        None \<Rightarrow> Inr None
      | Some ds \<Rightarrow> (case py_int ds of None \<Rightarrow> Inl ValueError | Some n \<Rightarrow> Inr (Some n)))"

text \<open>
  \<^verbatim>\<open>extract_page_location\<close> is the same in both modules up to the order of the two
  searches and the two conversions; the page is converted before the location.
\<close>

definition extract_page_location :: "string \<Rightarrow> py_exception + (int option \<times> int option)" where
  "extract_page_location text =
     (case group_int (re_search_number ''Page '' text) of
        Inl e \<Rightarrow> Inl e
      | Inr page \<Rightarrow>
          (case group_int (re_search_number ''Location '' text) of
             Inl e \<Rightarrow> Inl e
           | Inr location \<Rightarrow> Inr (page, location)))"

text \<open>
  A \<^verbatim>\<open>for\<close> loop that appends to a list: the body raises, or skips the element
  (\<^verbatim>\<open>continue\<close>), or appends one record. The first exception ends the loop.
\<close>

fun collect :: "('a \<Rightarrow> py_exception + 'b option) \<Rightarrow> 'a list \<Rightarrow> py_exception + 'b list" where
  "collect body [] = Inr []"
| "collect body (x # xs) =
     (case body x of
        Inl e \<Rightarrow> Inl e
      | Inr r \<Rightarrow>
          (case collect body xs of
             Inl e \<Rightarrow> Inl e
           | Inr rs \<Rightarrow> Inr (case r of None \<Rightarrow> rs | Some y \<Rightarrow> y # rs)))"

section \<open>The package module (src/kindle_highlights/parser.py)\<close>

text \<open>The dictionary that \<^verbatim>\<open>parse_book_library\<close> makes for one book.\<close>

record BookInfo =
  bi_asin :: string
  bi_title :: string
  bi_author :: string
  bi_cover_url :: string

fun extract_color_from_classes_pkg :: "string list \<Rightarrow> string" where
  "extract_color_from_classes_pkg [] = ''yellow''"
| "extract_color_from_classes_pkg (cls # classes) =
     (if endswith cls ''-yellow'' then ''yellow''
      else if endswith cls ''-blue'' then ''blue''
      else if endswith cls ''-pink'' then ''pink''
      else if endswith cls ''-orange'' then ''orange''
      else extract_color_from_classes_pkg classes)"

text \<open>
  The body of the loop of \<^verbatim>\<open>parse_book_library\<close>: \<open>None\<close> is \<^verbatim>\<open>continue\<close>. A tag is
  always true in a condition, so \<^verbatim>\<open>if title_elem\<close> asks whether \<^verbatim>\<open>find\<close> returned one.
\<close>

definition book_elem_pkg :: "node \<Rightarrow> BookInfo option" where
  "book_elem_pkg book_elem =
     (let asin' = get_default book_elem ''id'' []
      in if asin' = [] then None
         else
           let title' =
                 (case find_first (contents book_elem)
                         (\<lambda>t. named ''h2'' t \<and> has_class ''kp-notebook-searchable'' t) of
                    Some title_elem \<Rightarrow> get_text_strip title_elem
                  | None \<Rightarrow> []);
               author_text =
                 (case find_first (contents book_elem)
                         (\<lambda>t. named ''p'' t \<and> has_class ''kp-notebook-searchable'' t) of
                    Some author_elem \<Rightarrow> get_text_strip author_elem
                  | None \<Rightarrow> []);
               author' =
                 (if startswith author_text ''By: '' then str_replace ''By: '' [] author_text
                  else author_text);
               cover_url' =
                 (case find_first (contents book_elem)
                         (\<lambda>t. named ''img'' t \<and> has_class ''kp-notebook-cover-image'' t) of
                    Some img_elem \<Rightarrow> get_default img_elem ''src'' []
                  | None \<Rightarrow> [])
           in Some \<lparr>bi_asin = asin', bi_title = title', bi_author = author',
                     bi_cover_url = cover_url'\<rparr>)"

definition parse_book_library_pkg :: "soup \<Rightarrow> BookInfo list" where
  "parse_book_library_pkg soup =
     (let book_elements =
            (case find_first soup (\<lambda>t. named ''div'' t \<and> has_id ''kp-notebook-library'' t) of
               Some library \<Rightarrow>
                 find_all (contents library)
                   (\<lambda>t. named ''div'' t \<and> has_class ''kp-notebook-library-each-book'' t)
             | None \<Rightarrow>
                 find_all soup
                   (\<lambda>t. named ''div'' t \<and> has_class ''kp-notebook-library-each-book'' t))
      in List.map_filter book_elem_pkg book_elements)"

text \<open>
  The body of the loop of \<^verbatim>\<open>parse_annotations_html\<close>. The conversion of the hidden
  input's value is inside \<^verbatim>\<open>try ... except ValueError: pass\<close>; the conversions of
  \<^verbatim>\<open>extract_page_location\<close> are not.
\<close>

definition annotation_block_pkg :: "node \<Rightarrow> py_exception + Highlight option" where
  "annotation_block_pkg block =
     (let highlight_id = get_default block ''id'' []
      in if highlight_id = [] then Inr None
         else
           (case find_first (contents block)
                   (\<lambda>t. named ''div'' t \<and> has_class ''kp-notebook-highlight'' t) of
              None \<Rightarrow> Inr None
            | Some highlight_elem \<Rightarrow>
                let color = extract_color_from_classes_pkg (get_class highlight_elem);
                    text' =
                      (case find_first (contents highlight_elem)
                              (\<lambda>t. named ''span'' t \<and> has_class ''a-size-base-plus'' t) of
                         Some text_elem \<Rightarrow> get_text_strip text_elem
                       | None \<Rightarrow> [])
                in (case (case find_first (contents block)
                                 (\<lambda>t. named ''span'' t \<and> has_id ''annotationHighlightHeader'' t) of
                            Some header_elem \<Rightarrow> extract_page_location (get_text header_elem)
                          | None \<Rightarrow> Inr (None, None)) of
                      Inl e \<Rightarrow> Inl e
                    | Inr (page, location0) \<Rightarrow>
                        let location =
                              (if location0 = None
                               then (case find_first (contents block)
                                            (\<lambda>t. named ''input'' t \<and> has_id ''kp-annotation-location'' t) of
                                       Some location_input \<Rightarrow>
                                         (case attr location_input ''value'' of
                                            Some v \<Rightarrow> if v \<noteq> [] then py_int v else None
                                          | None \<Rightarrow> None)
                                     | None \<Rightarrow> None)
                               else location0);
                            note' =
                              (case find_first (contents block)
                                      (\<lambda>t. named ''div'' t \<and> has_class ''kp-notebook-note'' t) of
                                 Some note_elem \<Rightarrow>
                                   (case find_first (contents note_elem)
                                           (\<lambda>t. named ''span'' t \<and> has_class ''a-size-base-plus'' t) of
                                      Some note_text_elem \<Rightarrow> Some (get_text_strip note_text_elem)
                                    | None \<Rightarrow> None)
                               | None \<Rightarrow> None)
                        in if text' \<noteq> [] \<and> highlight_id \<noteq> []
                           then Inr (Some \<lparr>h_id = highlight_id, h_color = color, h_text = text',
                                           h_page = page, h_location = location, h_note = note'\<rparr>)
                           else Inr None)))"

definition parse_annotations_html_pkg :: "soup \<Rightarrow> py_exception + Highlight list" where
  "parse_annotations_html_pkg soup =
     (case find_first soup (\<lambda>t. named ''div'' t \<and> has_id ''kp-notebook-annotations'' t) of
        None \<Rightarrow> Inr []
      | Some annotations_container \<Rightarrow>
          collect annotation_block_pkg
            (find_all (contents annotations_container)
               (\<lambda>t. named ''div'' t \<and> has_attr ''id'' t)))"

text \<open>
  \<^verbatim>\<open>parse_book_from_annotations_page\<close>: the highlights are parsed before the test
  \<^verbatim>\<open>if not asin or not title\<close>.
\<close>

definition parse_book_from_annotations_page_pkg :: "soup \<Rightarrow> py_exception + Book option" where
  "parse_book_from_annotations_page_pkg soup =
     (let asin' =
            (case find_first soup
                    (\<lambda>t. named ''input'' t \<and> has_id ''kp-notebook-annotations-asin'' t) of
               Some asin_input \<Rightarrow> get_default asin_input ''value'' []
             | None \<Rightarrow> []);
          title' =
            (case find_first soup (\<lambda>t. named ''h3'' t \<and> has_class ''kp-notebook-metadata'' t) of
               Some title_elem \<Rightarrow> get_text_strip title_elem
             | None \<Rightarrow> []);
          author' =
            (case List.find
                    (\<lambda>text'. text' \<noteq> [] \<and> \<not> startswith text' ''Your Kindle Notes For:''
                       \<and> \<not> startswith text' ''Last accessed'')
                    (map get_text_strip
                       (find_all soup
                          (\<lambda>t. named ''p'' t \<and> has_class ''kp-notebook-metadata'' t))) of
               Some text' \<Rightarrow> text'
             | None \<Rightarrow> []);
          cover_url' =
            (case find_first soup
                    (\<lambda>t. named ''img'' t \<and> has_class ''kp-notebook-cover-image-border'' t) of
               Some cover_elem \<Rightarrow> get_default cover_elem ''src'' []
             | None \<Rightarrow> [])
      in (case parse_annotations_html_pkg soup of
            Inl e \<Rightarrow> Inl e
          | Inr highlights' \<Rightarrow>
              if asin' = [] \<or> title' = [] then Inr None
              else Inr (Some \<lparr>asin = asin', title = title', author = author',
                              cover_url = cover_url', highlights = highlights'\<rparr>)))"

section \<open>The flat module (src/src/parser.py)\<close>

text \<open>
  \<^verbatim>\<open>html.unescape(s)\<close> returns \<open>s\<close> when it holds no ampersand and otherwise substitutes
  the character references; the substitution is the parameter \<open>cr\<close>.
\<close>

definition unescape :: "(string \<Rightarrow> string) \<Rightarrow> string \<Rightarrow> string" where
  "unescape cr s = (if CHR ''&'' \<in> set s then cr s else s)"

text \<open>
  The flat module walks away from a selected tag (\<^verbatim>\<open>find_parent\<close>,
  \<^verbatim>\<open>find_previous\<close>, \<^verbatim>\<open>find_next_sibling\<close>), so every tag is listed with its
  parents, nearest first, and the siblings after it; \<open>with_previous\<close> adds the tags before
  it in the document, nearest first.
\<close>

record located =
  elem :: node
  parents :: "node list"
  next_siblings :: "node list"

fun locate :: "node list \<Rightarrow> node list \<Rightarrow> located list" where
  "locate ps [] = []"
| "locate ps (Tag name attrs children # rest) =
     \<lparr>elem = Tag name attrs children, parents = ps, next_siblings = rest\<rparr>
       # locate (Tag name attrs children # ps) children @ locate ps rest"
| "locate ps (NavigableString s # rest) = locate ps rest"
| "locate ps (Comment s # rest) = locate ps rest"

fun with_previous :: "node list \<Rightarrow> located list \<Rightarrow> (node list \<times> located) list" where
  "with_previous prev [] = []"
| "with_previous prev (l # ls) = (prev, l) # with_previous (elem l # prev) ls"

definition color_map :: "(string \<times> string) list" where
  "color_map =
     [(''kp-notebook-highlight-yellow'', ''yellow''),
      (''kp-notebook-highlight-blue'', ''blue''),
      (''kp-notebook-highlight-pink'', ''pink''),
      (''kp-notebook-highlight-orange'', ''orange'')]"

fun extract_color_from_classes_flat :: "string list \<Rightarrow> string" where
  "extract_color_from_classes_flat [] = ''yellow''"
| "extract_color_from_classes_flat (class_name # classes) =
     (case map_of color_map class_name of
        Some color \<Rightarrow> color
      | None \<Rightarrow> extract_color_from_classes_flat classes)"

text \<open>The body of the loop of \<^verbatim>\<open>parse_book_library\<close>: every selected element is appended.\<close>

definition book_element_flat :: "(string \<Rightarrow> string) \<Rightarrow> node \<Rightarrow> BookInfo" where
  "book_element_flat cr book_element =
     (let asin' = get_default book_element ''id'' [];
          searchables = find_all (contents book_element) (has_class ''kp-notebook-searchable'');
          title' =
            (case searchables of [] \<Rightarrow> [] | s0 # others \<Rightarrow> unescape cr (get_text_strip s0));
          author' =
            (if length searchables > 1
             then unescape cr (strip (removeprefix (get_text_strip (searchables ! 1)) ''By:''))
             else []);
          cover_url' =
            (case find_first (contents book_element) (named ''img'') of
               Some cover_element \<Rightarrow> get_default cover_element ''src'' []
             | None \<Rightarrow> [])
      in \<lparr>bi_asin = asin', bi_title = title', bi_author = author', bi_cover_url = cover_url'\<rparr>)"

definition parse_book_library_flat :: "(string \<Rightarrow> string) \<Rightarrow> soup \<Rightarrow> BookInfo list" where
  "parse_book_library_flat cr soup =
     map (book_element_flat cr) (find_all soup (has_class ''kp-notebook-library-each-book''))"

text \<open>
  \<^verbatim>\<open>soup.select("#kp-notebook-annotations .kp-notebook-highlight")\<close>: the tags of that
  class with a parent, at any distance, of that id.
\<close>

definition highlight_elements :: "soup \<Rightarrow> (node list \<times> located) list" where
  "highlight_elements soup =
     filter (\<lambda>(prev, l). has_class ''kp-notebook-highlight'' (elem l)
                \<and> list_ex (has_id ''kp-notebook-annotations'') (parents l))
       (with_previous [] (locate [] soup))"

text \<open>The body of the loop of \<^verbatim>\<open>parse_annotations_html\<close>: nothing is skipped.\<close>

definition highlight_element_flat ::
  "(string \<Rightarrow> string) \<Rightarrow> node list \<times> located \<Rightarrow> py_exception + Highlight option" where
  "highlight_element_flat cr pl =
     (let element = elem (snd pl);
          id0 = get_default element ''id'' [];
          highlight_id =
            (if id0 = []
             then (case List.find (has_attr ''id'') (parents (snd pl)) of
                     Some parent_with_id \<Rightarrow> get_default parent_with_id ''id'' []
                   | None \<Rightarrow> [])
             else id0);
          text_element =
            (case find_first (contents element) (has_class ''a-size-base-plus'') of
               Some e \<Rightarrow> e
             | None \<Rightarrow> element);
          text' = unescape cr (get_text_strip text_element);
          color = extract_color_from_classes_flat (get_class element);
          header_element =
            List.find (\<lambda>t. named ''span'' t \<and> has_id ''annotationHighlightHeader'' t) (fst pl)
      in (case extract_page_location
                 (case header_element of Some h \<Rightarrow> get_text_strip h | None \<Rightarrow> []) of
            Inl e \<Rightarrow> Inl e
          | Inr (page, location) \<Rightarrow>
              let note_element =
                    List.find (\<lambda>t. named ''div'' t \<and> has_class ''kp-notebook-note'' t)
                      (next_siblings (snd pl));
                  note_span =
                    (case note_element of
                       Some n \<Rightarrow> find_first (contents n) (has_class ''a-size-base-plus'')
                     | None \<Rightarrow> None);
                  note' =
                    (case note_span of
                       Some sp \<Rightarrow> Some (unescape cr (get_text_strip sp))
                     | None \<Rightarrow> None)
              in Inr (Some \<lparr>h_id = highlight_id, h_color = color, h_text = text',
                             h_page = page, h_location = location, h_note = note'\<rparr>)))"

definition parse_annotations_html_flat ::
  "(string \<Rightarrow> string) \<Rightarrow> soup \<Rightarrow> py_exception + Highlight list" where
  "parse_annotations_html_flat cr soup =
     collect (highlight_element_flat cr) (highlight_elements soup)"

text \<open>
  \<^verbatim>\<open>parse_book_from_annotations_page\<close>: absent only when fewer than three tags have the
  metadata class; the asin and the title are not looked at.
\<close>

definition parse_book_from_annotations_page_flat ::
  "(string \<Rightarrow> string) \<Rightarrow> soup \<Rightarrow> py_exception + Book option" where
  "parse_book_from_annotations_page_flat cr soup =
     (let author_elements = find_all soup (has_class ''kp-notebook-metadata'')
      in (case find_first soup (has_class ''kp-notebook-metadata'') of
            None \<Rightarrow> Inr None
          | Some book_title_element \<Rightarrow>
              if length author_elements < 3 then Inr None
              else
                let book_title = unescape cr (get_text_strip book_title_element);
                    author' = unescape cr (get_text_strip (author_elements ! 2));
                    cover_url' =
                      (case find_first soup (has_class ''kp-notebook-cover-image-border'') of
                         Some cover_element \<Rightarrow> get_default cover_element ''src'' []
                       | None \<Rightarrow> []);
                    asin' =
                      (case find_first soup (has_id ''kp-notebook-annotations-asin'') of
                         Some asin_input \<Rightarrow> get_default asin_input ''value'' []
                       | None \<Rightarrow> [])
                in (case parse_annotations_html_flat cr soup of
                      Inl e \<Rightarrow> Inl e
                    | Inr highlights' \<Rightarrow>
                        Inr (Some \<lparr>asin = asin', title = book_title, author = author',
                                    cover_url = cover_url', highlights = highlights'\<rparr>))))"

section \<open>Pages of the standard shape\<close>





text \<open>
  An annotation as the page shows it: the id of its block, the colour, the header line
  (\<^verbatim>\<open>Page 12\<close>, say), the highlighted text and the note if there is one. Its block is
  \<^verbatim>\<open><div id=ID>\<close> holding the header in \<^verbatim>\<open><span id="annotationHighlightHeader">\<close>, the
  highlight in
  \<^verbatim>\<open><div class="kp-notebook-highlight kp-notebook-highlight-COLOUR">\<close> with the text in
  \<^verbatim>\<open><span class="a-size-base-plus">\<close>, and after it the note, when there is one, in
  \<^verbatim>\<open><div class="kp-notebook-note">\<close> with its text in \<^verbatim>\<open><span class="a-size-base-plus">\<close>.
  The blocks are the contents of \<^verbatim>\<open>div#kp-notebook-annotations\<close>. An annotation is well
  formed when its id and its text are not empty, the colour is one of the four, the header
  has no white space around it, and text and note are clean.
\<close>

record annotation =
  an_id :: string
  an_color :: string
  an_header :: string
  an_text :: string
  an_note :: "string option"










section \<open>Sample values\<close>

definition example_highlight :: Highlight where
  "example_highlight = \<lparr>h_id = ''h1'', h_color = ''yellow'', h_text = ''some text'',
     h_page = Some 0, h_location = Some 0, h_note = Some []\<rparr>"

definition example_book :: Book where
  "example_book = \<lparr>asin = ''B00X57B4JG'', title = ''Why Greatness Cannot Be Planned'',
     author = ''Kenneth O. Stanley'', cover_url = [], highlights = [example_highlight]\<rparr>"

definition example_entry :: "string \<Rightarrow> BookDict" where
  "example_entry a = \<lparr>bd_asin = a, bd_title = ''Cached Book'', bd_author = ''Author'',
     bd_cover_url = [], bd_highlights = []\<rparr>"

definition example_data :: ExportData where
  "example_data = \<lparr>run = [(''timestamp'', Some ''2024-01-01T00:00:00Z'')],
     books = [example_entry ''TEST-ASIN'', example_entry ''B00X57B4JG'', example_entry ''LAST'']\<rparr>"

definition example_fs :: "stored_file \<Rightarrow> filesystem" where
  "example_fs f = \<lparr>content = (\<lambda>p. if p = ''highlights.json'' then f else Missing),
     write_raises = (\<lambda>p. None)\<rparr>"

definition entry_without_id :: soup where
  "entry_without_id = [Tag ''div'' [(''class'', ''kp-notebook-library-each-book'')] []]"

definition highlight_without_text :: soup where
  "highlight_without_text =
     [Tag ''div'' [(''id'', ''kp-notebook-annotations'')]
        [Tag ''div'' [(''class'', ''kp-notebook-highlight'')] []]]"

definition page_without_asin :: soup where
  "page_without_asin =
     [Tag ''h3'' [(''class'', ''kp-notebook-metadata'')] [NavigableString ''A Title''],
      Tag ''p'' [(''class'', ''kp-notebook-metadata'')] [NavigableString ''Last accessed''],
      Tag ''p'' [(''class'', ''kp-notebook-metadata'')] [NavigableString ''An Author'']]"





section \<open>The export store: helper lemmas\<close>

lemma replace_first_length: "length (replace_first a d bs) = length bs"
  by (induction bs) auto

lemma replace_first_filter:
  "bd_asin d = a \<Longrightarrow> filter (\<lambda>e. bd_asin e \<noteq> a) (replace_first a d bs) = filter (\<lambda>e. bd_asin e \<noteq> a) bs"
  by (induction bs) auto

lemma replace_first_index:
  "a \<in> set (map bd_asin bs) \<Longrightarrow>
   \<exists>i < length bs. bd_asin (bs ! i) = a \<and> (\<forall>j < i. bd_asin (bs ! j) \<noteq> a) \<and> replace_first a d bs = bs[i := d]"
proof (induction bs)
  case Nil
  then show ?case by simp
next
  case (Cons e es)
  show ?case
  proof (cases "bd_asin e = a")
    case True
    then have "bd_asin ((e # es) ! 0) = a \<and> (\<forall>j < 0. bd_asin ((e # es) ! j) \<noteq> a) \<and> replace_first a d (e # es) = (e # es)[0 := d]"
      by simp
    then show ?thesis by blast
  next
    case False
    with Cons.prems have "a \<in> set (map bd_asin es)" by auto
    from Cons.IH[OF this] obtain i where i: "i < length es" "bd_asin (es ! i) = a"
      "\<forall>j < i. bd_asin (es ! j) \<noteq> a" "replace_first a d es = es[i := d]" by blast
    have "\<forall>j < Suc i. bd_asin ((e # es) ! j) \<noteq> a"
      using False i(3) by (auto simp: less_Suc_eq_0_disj)
    with i False have "Suc i < length (e # es) \<and> bd_asin ((e # es) ! Suc i) = a \<and> (\<forall>j < Suc i. bd_asin ((e # es) ! j) \<noteq> a) \<and> replace_first a d (e # es) = (e # es)[Suc i := d]"
      by simp
    then show ?thesis by blast
  qed
qed

lemma replace_first_idem:
  "bd_asin d = a \<Longrightarrow> replace_first a d (replace_first a d bs) = replace_first a d bs"
  by (induction bs) auto

lemma replace_first_append:
  "bd_asin d = a \<Longrightarrow> a \<notin> set (map bd_asin bs) \<Longrightarrow> replace_first a d (bs @ [d]) = bs @ [d]"
  by (induction bs) auto

lemma replace_first_asins:
  "bd_asin d = a \<Longrightarrow> a \<in> set (map bd_asin bs) \<Longrightarrow> a \<in> set (map bd_asin (replace_first a d bs))"
  by (induction bs) auto

lemma map_of_dict_set: "map_of (dict_set k v d) k = Some v"
  by (induction d) auto

lemma map_of_dict_set_other: "k' \<noteq> k \<Longrightarrow> map_of (dict_set k v d) k' = map_of d k'"
  by (induction d) auto

lemma upsert_books:
  "books (fst (upsert now b s)) =
     (if asin b \<in> set (map bd_asin (books s))
      then replace_first (asin b) (book_to_dict b) (books s)
      else books s @ [book_to_dict b])"
  by (simp add: upsert_def Let_def)

lemma upsert_run: "run (fst (upsert now b s)) = dict_set ''timestamp'' (Some (now @ ''Z'')) (run s)"
  by (simp add: upsert_def Let_def split: prod.splits)

lemma save_Holds:
  assumes "content fs p = Holds s" "write_raises fs p = None"
  shows "save_book_progressively now fs b p =
     Inr (fs\<lparr>content := (content fs)(p := Holds (fst (upsert now b s)))\<rparr>, [snd (upsert now b s)])"
  using assms by (simp add: save_book_progressively_def load_existing_data_def split: prod.splits)

lemma bd_asin_book_to_dict: "bd_asin (book_to_dict b) = asin b"
  by (simp add: book_to_dict_def)

section \<open>Upsert by asin\<close>

text \<open>
  Claim C2. When the file at the path holds an export state \<open>s\<close> and the write succeeds,
  \<^verbatim>\<open>save_book_progressively\<close> returns and leaves a state \<open>s'\<close> at the path such that:
  if an entry of \<open>s\<close> has the book's asin, the first such entry (index \<open>i\<close>) is overwritten
  in place by the book's dictionary and nothing is appended; otherwise the dictionary is
  appended at the end; the entries with another asin are the same, in the same order;
  no entry is removed; and \<^verbatim>\<open>run["timestamp"]\<close> is the current instant.
\<close>

theorem save_book_progressively_upsert:
  assumes "content fs p = Holds s" and "write_raises fs p = None"
  shows "\<exists>fs' printed s'.
     save_book_progressively now fs b p = Inr (fs', printed) \<and> content fs' p = Holds s' \<and>
     (if asin b \<in> set (map bd_asin (books s))
      then (\<exists>i < length (books s). bd_asin (books s ! i) = asin b \<and>
              (\<forall>j < i. bd_asin (books s ! j) \<noteq> asin b) \<and>
              books s' = (books s)[i := book_to_dict b])
      else books s' = books s @ [book_to_dict b]) \<and>
     filter (\<lambda>e. bd_asin e \<noteq> asin b) (books s') = filter (\<lambda>e. bd_asin e \<noteq> asin b) (books s) \<and>
     length (books s) \<le> length (books s') \<and>
     map_of (run s') ''timestamp'' = Some (Some (now @ ''Z''))"
proof -
  let ?s' = "fst (upsert now b s)"
  let ?fs' = "fs\<lparr>content := (content fs)(p := Holds ?s')\<rparr>"
  have 1: "save_book_progressively now fs b p = Inr (?fs', [snd (upsert now b s)])"
    using assms by (rule save_Holds)
  have 2: "content ?fs' p = Holds ?s'" by simp
  have 3: "if asin b \<in> set (map bd_asin (books s))
      then (\<exists>i < length (books s). bd_asin (books s ! i) = asin b \<and>
              (\<forall>j < i. bd_asin (books s ! j) \<noteq> asin b) \<and>
              books ?s' = (books s)[i := book_to_dict b])
      else books ?s' = books s @ [book_to_dict b]"
  proof (cases "asin b \<in> set (map bd_asin (books s))")
    case True
    from replace_first_index[OF True, of "book_to_dict b"] True show ?thesis
      by (simp only: upsert_books if_True)
  next
    case False
    then show ?thesis by (simp only: upsert_books if_False)
  qed
  have 4: "filter (\<lambda>e. bd_asin e \<noteq> asin b) (books ?s') = filter (\<lambda>e. bd_asin e \<noteq> asin b) (books s)"
    by (simp add: upsert_books replace_first_filter bd_asin_book_to_dict)
  have 5: "length (books s) \<le> length (books ?s')"
    by (simp add: upsert_books replace_first_length)
  have 6: "map_of (run ?s') ''timestamp'' = Some (Some (now @ ''Z''))"
    by (simp add: upsert_run map_of_dict_set)
  from 1 2 3 4 5 6 show ?thesis by blast
qed

theorem save_book_progressively_upsert_witness:
  "\<exists>fs' printed s'.
     save_book_progressively ''2024-01-02T00:00:00'' (example_fs (Holds example_data)) example_book
       ''highlights.json'' = Inr (fs', printed) \<and>
     content fs' ''highlights.json'' = Holds s' \<and>
     filter (\<lambda>e. bd_asin e \<noteq> ''B00X57B4JG'') (books s')
       = [example_entry ''TEST-ASIN'', example_entry ''LAST''] \<and>
     3 \<le> length (books s') \<and>
     map_of (run s') ''timestamp'' = Some (Some ''2024-01-02T00:00:00Z'')"
proof -
  have c: "content (example_fs (Holds example_data)) ''highlights.json'' = Holds example_data"
    and w: "write_raises (example_fs (Holds example_data)) ''highlights.json'' = None"
    by (simp_all add: example_fs_def)
  from save_book_progressively_upsert[OF c w, of "''2024-01-02T00:00:00''" example_book]
  obtain fs' printed s' where
    1: "save_book_progressively ''2024-01-02T00:00:00'' (example_fs (Holds example_data))
          example_book ''highlights.json'' = Inr (fs', printed)"
    and 2: "content fs' ''highlights.json'' = Holds s'"
    and 3: "filter (\<lambda>e. bd_asin e \<noteq> asin example_book) (books s')
          = filter (\<lambda>e. bd_asin e \<noteq> asin example_book) (books example_data)"
    and 4: "length (books example_data) \<le> length (books s')"
    and 5: "map_of (run s') ''timestamp'' = Some (Some (''2024-01-02T00:00:00'' @ ''Z''))"
    by blast
  from 3 have 6: "filter (\<lambda>e. bd_asin e \<noteq> ''B00X57B4JG'') (books s')
       = [example_entry ''TEST-ASIN'', example_entry ''LAST'']"
    by (simp add: example_book_def example_data_def example_entry_def)
  from 4 have 7: "3 \<le> length (books s')" by (simp add: example_data_def)
  from 5 have 8: "map_of (run s') ''timestamp'' = Some (Some ''2024-01-02T00:00:00Z'')" by simp
  from 1 2 6 7 8 show ?thesis by blast
qed

text \<open>
  Claim C3. Saving the same book twice, the second time on what the first left in the file:
  both calls return, and the \<^verbatim>\<open>books\<close> list after the second is the list after the first;
  in particular its length is unchanged. The two calls may differ in their timestamps.
\<close>

theorem save_book_progressively_idempotent:
  assumes "content fs p = Holds s" and "write_raises fs p = None"
  shows "\<exists>fs1 printed1 s1 fs2 printed2 s2.
     save_book_progressively now1 fs b p = Inr (fs1, printed1) \<and> content fs1 p = Holds s1 \<and>
     save_book_progressively now2 fs1 b p = Inr (fs2, printed2) \<and> content fs2 p = Holds s2 \<and>
     books s2 = books s1 \<and> length (books s2) = length (books s1)"
proof -
  let ?s1 = "fst (upsert now1 b s)"
  let ?fs1 = "fs\<lparr>content := (content fs)(p := Holds ?s1)\<rparr>"
  let ?s2 = "fst (upsert now2 b ?s1)"
  let ?fs2 = "?fs1\<lparr>content := (content ?fs1)(p := Holds ?s2)\<rparr>"
  have 1: "save_book_progressively now1 fs b p = Inr (?fs1, [snd (upsert now1 b s)])"
    using assms by (rule save_Holds)
  have c1: "content ?fs1 p = Holds ?s1" and w1: "write_raises ?fs1 p = None"
    using assms by simp_all
  have 2: "save_book_progressively now2 ?fs1 b p = Inr (?fs2, [snd (upsert now2 b ?s1)])"
    using c1 w1 by (rule save_Holds)
  have c2: "content ?fs2 p = Holds ?s2" by simp
  have mem: "asin b \<in> set (map bd_asin (books ?s1))"
  proof (cases "asin b \<in> set (map bd_asin (books s))")
    case True
    from replace_first_asins[OF bd_asin_book_to_dict True] True show ?thesis
      by (simp only: upsert_books if_True)
  next
    case False
    then show ?thesis by (simp add: upsert_books bd_asin_book_to_dict)
  qed
  have eq: "books ?s2 = books ?s1"
  proof (cases "asin b \<in> set (map bd_asin (books s))")
    case True
    have "books ?s2 = replace_first (asin b) (book_to_dict b) (books ?s1)"
      using mem by (simp only: upsert_books[of now2] if_True)
    also have "\<dots> = books ?s1"
      using True by (simp add: upsert_books replace_first_idem bd_asin_book_to_dict)
    finally show ?thesis .
  next
    case False
    have "books ?s2 = replace_first (asin b) (book_to_dict b) (books ?s1)"
      using mem by (simp only: upsert_books[of now2] if_True)
    also have "\<dots> = books ?s1"
      using False by (simp add: upsert_books replace_first_append bd_asin_book_to_dict)
    finally show ?thesis .
  qed
  from 1 c1 2 c2 eq show ?thesis by metis
qed

theorem save_book_progressively_idempotent_witness:
  "\<exists>fs1 printed1 s1 fs2 printed2 s2.
     save_book_progressively ''2024-01-02T00:00:00'' (example_fs (Holds example_data)) example_book
       ''highlights.json'' = Inr (fs1, printed1) \<and>
     content fs1 ''highlights.json'' = Holds s1 \<and>
     save_book_progressively ''2024-01-03T00:00:00'' fs1 example_book ''highlights.json''
       = Inr (fs2, printed2) \<and>
     content fs2 ''highlights.json'' = Holds s2 \<and>
     books s2 = books s1 \<and> length (books s2) = length (books s1)"
proof -
  have c: "content (example_fs (Holds example_data)) ''highlights.json'' = Holds example_data"
    and w: "write_raises (example_fs (Holds example_data)) ''highlights.json'' = None"
    by (simp_all add: example_fs_def)
  show ?thesis using c w by (rule save_book_progressively_idempotent)
qed

section \<open>Serialization of a book\<close>

text \<open>
  Claim C10. In \<^verbatim>\<open>book_to_dict\<close>, the \<open>i\<close>-th highlight dictionary comes from the \<open>i\<close>-th
  highlight. A highlight whose note is the empty string gets no \<^verbatim>\<open>note\<close> key, and its
  dictionary is the one of the same highlight with no note at all. A page or location
  equal to 0 is kept; the \<^verbatim>\<open>page\<close> and \<^verbatim>\<open>location\<close> keys are left out only for \<open>None\<close>.
\<close>

theorem book_to_dict_note_page:
  assumes "i < length (highlights b)"
  shows "length (bd_highlights (book_to_dict b)) = length (highlights b) \<and>
     (h_note (highlights b ! i) = Some [] \<longrightarrow>
        hd_note (bd_highlights (book_to_dict b) ! i) = None \<and>
        bd_highlights (book_to_dict b) ! i = highlight_data ((highlights b ! i)\<lparr>h_note := None\<rparr>)) \<and>
     (h_page (highlights b ! i) = Some 0 \<longrightarrow> hd_page (bd_highlights (book_to_dict b) ! i) = Some 0) \<and>
     (h_location (highlights b ! i) = Some 0 \<longrightarrow> hd_location (bd_highlights (book_to_dict b) ! i) = Some 0) \<and>
     (hd_page (bd_highlights (book_to_dict b) ! i) = None \<longleftrightarrow> h_page (highlights b ! i) = None) \<and>
     (hd_location (bd_highlights (book_to_dict b) ! i) = None \<longleftrightarrow> h_location (highlights b ! i) = None)"
  using assms by (simp add: book_to_dict_def highlight_data_def split: option.splits)

theorem book_to_dict_note_page_witness:
  "hd_note (bd_highlights (book_to_dict example_book) ! 0) = None \<and>
   hd_page (bd_highlights (book_to_dict example_book) ! 0) = Some 0 \<and>
   hd_location (bd_highlights (book_to_dict example_book) ! 0) = Some 0"
  using book_to_dict_note_page[of 0 example_book]
  by (simp add: example_book_def example_highlight_def book_to_dict_def highlight_data_def)

section \<open>Loading the store\<close>

text \<open>
  What the handler of \<^verbatim>\<open>load_existing_data\<close> covers. When opening or reading the file
  raises \<^verbatim>\<open>OSError\<close>, or \<^verbatim>\<open>json.load\<close> raises \<^verbatim>\<open>JSONDecodeError\<close>, the call returns a fresh
  state with no books and prints one warning that names the path and the exception. When
  there is no file at the path it returns a fresh state with no books and prints nothing.
\<close>

lemma load_existing_data_recovers:
  "(content fs p = Missing \<longrightarrow> load_existing_data now fs p = Inr (empty_export_data now, [])) \<and>
   (content fs p = ReadRaises OSError \<longrightarrow>
      load_existing_data now fs p = Inr (empty_export_data now, [CouldNotLoad p OSError])) \<and>
   (content fs p = ReadRaises JSONDecodeError \<longrightarrow>
      load_existing_data now fs p = Inr (empty_export_data now, [CouldNotLoad p JSONDecodeError])) \<and>
   books (empty_export_data now) = []"
  by (simp add: load_existing_data_def empty_export_data_def)

lemma load_missing_no_diagnostic:
  "snd (projr (load_existing_data ''t'' (example_fs Missing) ''highlights.json'')) = []"
  by (simp add: load_existing_data_def example_fs_def)

text \<open>
  Every other exception of the read leaves \<^verbatim>\<open>load_existing_data\<close>: the handler names two
  classes only.
\<close>

lemma load_existing_data_raises:
  "content fs p = ReadRaises e \<Longrightarrow> e \<noteq> OSError \<Longrightarrow> e \<noteq> JSONDecodeError \<Longrightarrow>
   load_existing_data now fs p = Inl e"
  by (simp add: load_existing_data_def)

text \<open>
  Claim C9 says that loading the store never raises, and that a file that cannot be read
  gives a fresh empty state and a diagnostic. The code does not keep it. The file is opened
  with \<^verbatim>\<open>encoding="utf-8"\<close>, so reading a store whose bytes are not UTF-8 (the one byte
  \<^verbatim>\<open>0xFF\<close>, say) raises \<^verbatim>\<open>UnicodeDecodeError\<close>. That class is a \<^verbatim>\<open>ValueError\<close>, neither an
  \<^verbatim>\<open>OSError\<close> nor a \<^verbatim>\<open>JSONDecodeError\<close>, so the handler lets it pass: the call raises, and
  returns no state and prints no warning.
\<close>

theorem load_not_utf8_raises:
  "load_existing_data ''t'' (example_fs (ReadRaises UnicodeDecodeError)) ''highlights.json''
     = Inl UnicodeDecodeError"
  by (simp add: load_existing_data_def example_fs_def)

section \<open>The stabilization loop on the counts 3, 5, 5, 5, 8, 8, 8, 8\<close>

text \<open>
  Claim C4, as amended. Started with \<^verbatim>\<open>last_count = 0\<close> and \<^verbatim>\<open>stable_count = 0\<close> on the
  observed counts 3, 5, 5, 5, 8, 8, 8, 8, the loop ends after the 8th observation with
  \<^verbatim>\<open>last_count = 8\<close>, and on the first seven observations alone it is still running: the
  first observation of a value sets the streak to 0, so three unchanged checks need four
  equal observations.
\<close>

theorem stabilize_ends_after_eighth:
  "stabilize 0 0 0 [3, 5, 5, 5, 8, 8, 8, 8] = Some (8, 8) \<and>
   stabilize 0 0 0 [3, 5, 5, 5, 8, 8, 8] = None"
  by simp

text \<open>Claim C4 as stated: the number of observations made is not 7.\<close>

theorem stabilize_not_after_seventh:
  "map_option fst (stabilize 0 0 0 [3, 5, 5, 5, 8, 8, 8, 8]) \<noteq> Some 7"
  by simp

section \<open>The extractors: helper lemmas\<close>

lemmas dom_eval = find_first_def find_all_def has_id_def has_class_def has_attr_def
  get_class_def words_def get_default_def get_text_def get_text_strip_def strip_def is_space_def

lemma collect_Inr:
  "collect body xs = Inr ys \<Longrightarrow> y \<in> set ys \<Longrightarrow> \<exists>x \<in> set xs. body x = Inr (Some y)"
proof (induction xs arbitrary: ys)
  case Nil
  then show ?case by simp
next
  case (Cons x xs)
  from Cons.prems(1) obtain r rs where r: "body x = Inr r" and rs: "collect body xs = Inr rs"
    and ys: "ys = (case r of None \<Rightarrow> rs | Some z \<Rightarrow> z # rs)"
    by (auto split: sum.splits)
  show ?case
  proof (cases "y \<in> set rs")
    case True
    with Cons.IH[OF rs] show ?thesis by auto
  next
    case False
    with ys Cons.prems(2) have "r = Some y" by (cases r) auto
    with r show ?thesis by simp
  qed
qed

lemma collect_all_skipped:
  "(\<And>x. x \<in> set xs \<Longrightarrow> body x = Inr None) \<Longrightarrow> collect body xs = Inr []"
  by (induction xs) simp_all

lemma annotation_block_pkg_Some:
  "annotation_block_pkg block = Inr (Some h) \<Longrightarrow> h_id h \<noteq> [] \<and> h_text h \<noteq> []"
  by (auto simp: annotation_block_pkg_def Let_def
      split: if_splits option.splits sum.splits prod.splits)

lemma book_elem_pkg_Some: "book_elem_pkg book_elem = Some b \<Longrightarrow> bi_asin b \<noteq> []"
  by (auto simp: book_elem_pkg_def Let_def split: if_splits)

lemma map_filter_Some: "y \<in> set (List.map_filter f xs) \<Longrightarrow> \<exists>x \<in> set xs. f x = Some y"
  by (induction xs) (auto simp: List.map_filter_simps split: option.splits)

section \<open>Records without an identifier or text\<close>

text \<open>
  The package module keeps the invariant of claim C1: a highlight that
  \<^verbatim>\<open>parse_annotations_html\<close> returns has an id and a text that are not empty.
\<close>

lemma parse_annotations_html_pkg_nonempty:
  "parse_annotations_html_pkg soup = Inr hs \<Longrightarrow> h \<in> set hs \<Longrightarrow> h_id h \<noteq> [] \<and> h_text h \<noteq> []"
  unfolding parse_annotations_html_pkg_def
  by (auto split: option.splits dest!: collect_Inr annotation_block_pkg_Some)

text \<open>
  Claim C1 fails in the flat module. On the document
  \<^verbatim>\<open><div id="kp-notebook-annotations"><div class="kp-notebook-highlight"></div></div>\<close>
  its \<^verbatim>\<open>parse_annotations_html\<close> returns one highlight, whose id is the container's and
  whose text is the empty string. The document holds no ampersand, so the result is the
  same for every substitution of character references.
\<close>

theorem parse_annotations_html_flat_empty_text:
  "parse_annotations_html_flat cr highlight_without_text =
     Inr [\<lparr>h_id = ''kp-notebook-annotations'', h_color = ''yellow'', h_text = [],
           h_page = None, h_location = None, h_note = None\<rparr>]"
  by (simp add: highlight_without_text_def parse_annotations_html_flat_def highlight_elements_def
      highlight_element_flat_def extract_page_location_def group_int_def unescape_def
      color_map_def dom_eval)

text \<open>
  The package module keeps the invariant of claim C6: a book that
  \<^verbatim>\<open>parse_book_from_annotations_page\<close> returns has an asin and a title that are not empty.
\<close>

lemma parse_book_from_annotations_page_pkg_nonempty:
  "parse_book_from_annotations_page_pkg soup = Inr (Some b) \<Longrightarrow> asin b \<noteq> [] \<and> title b \<noteq> []"
  unfolding parse_book_from_annotations_page_pkg_def Let_def
  by (auto split: sum.splits if_splits)

text \<open>
  Claim C6 fails in the flat module. On a page with three tags of the metadata class and
  no hidden input for the asin, its \<^verbatim>\<open>parse_book_from_annotations_page\<close> returns a book
  whose asin is the empty string.
\<close>

theorem parse_book_from_annotations_page_flat_empty_asin:
  "parse_book_from_annotations_page_flat cr page_without_asin =
     Inr (Some \<lparr>asin = [], title = ''A Title'', author = ''An Author'', cover_url = [],
                 highlights = []\<rparr>)"
  by (simp add: page_without_asin_def parse_book_from_annotations_page_flat_def
      parse_annotations_html_flat_def highlight_elements_def unescape_def dom_eval)

text \<open>
  The package module does what claim C7 says: every entry that \<^verbatim>\<open>parse_book_library\<close>
  returns has an asin that is not empty.
\<close>

lemma parse_book_library_pkg_asin: "b \<in> set (parse_book_library_pkg soup) \<Longrightarrow> bi_asin b \<noteq> []"
  unfolding parse_book_library_pkg_def Let_def
  by (auto dest!: map_filter_Some book_elem_pkg_Some)

text \<open>
  Claim C7 fails in the flat module. On the document
  \<^verbatim>\<open><div class="kp-notebook-library-each-book"></div>\<close> its \<^verbatim>\<open>parse_book_library\<close> returns
  one entry, whose asin is the empty string.
\<close>

theorem parse_book_library_flat_empty_asin:
  "parse_book_library_flat cr entry_without_id =
     [\<lparr>bi_asin = [], bi_title = [], bi_author = [], bi_cover_url = []\<rparr>]"
  by (simp add: entry_without_id_def parse_book_library_flat_def book_element_flat_def dom_eval)

section \<open>The empty document\<close>

text \<open>
  Claim C8. On the empty document, which is what the empty string parses to, the three
  entry points of both modules return without an exception: \<^verbatim>\<open>parse_book_library\<close> the
  empty list, \<^verbatim>\<open>parse_annotations_html\<close> the empty list, and
  \<^verbatim>\<open>parse_book_from_annotations_page\<close> \<^verbatim>\<open>None\<close>.
\<close>

theorem empty_document_results:
  "parse_book_library_pkg [] = [] \<and> parse_annotations_html_pkg [] = Inr [] \<and>
   parse_book_from_annotations_page_pkg [] = Inr None \<and>
   parse_book_library_flat cr [] = [] \<and> parse_annotations_html_flat cr [] = Inr [] \<and>
   parse_book_from_annotations_page_flat cr [] = Inr None"
  by (simp add: parse_book_library_pkg_def parse_annotations_html_pkg_def
      parse_book_from_annotations_page_pkg_def parse_book_library_flat_def
      parse_annotations_html_flat_def parse_book_from_annotations_page_flat_def
      highlight_elements_def find_first_def find_all_def)

section \<open>The two modules compared\<close>




subsection \<open>Texts without white space around them\<close>









subsection \<open>The library page\<close>











subsection \<open>Annotation blocks\<close>










subsection \<open>The page of a book\<close>









end
